theory Spec2Isabelle
  imports Complex_Main
begin

section \<open>Scrubby Zoom: the zoom estimator and the drag state machine\<close>

text \<open>
  A shallow embedding of \<^verbatim>\<open>src/scrubby_zoom/scrubby_zoom.py\<close>.

  Conventions of the model.
  \<^item> A Python \<^verbatim>\<open>float\<close> is a \<^typ>\<open>real\<close>: finite values with exact arithmetic. Rounding,
    underflow to zero, infinities and NaN are not represented, so a quotient of the model
    is never zero unless its numerator is, while a double quotient can be. The one
    floating-point exception the code can meet, the \<^verbatim>\<open>OverflowError\<close> of \<^verbatim>\<open>2.0 ** e\<close>, is
    a branch of \<open>py_pow2\<close>.
  \<^item> A call that may raise returns \<open>exn + 'a\<close>; \<open>Inl\<close> is the raised exception. Every
    handler of the source is \<^verbatim>\<open>except Exception\<close>, which \<open>try_except\<close> models.
  \<^item> The host application (Krita and Qt) is a snapshot record \<open>host\<close> whose accessors
    answer deterministically during one handler; each handler receives its own snapshot,
    so the host may change arbitrarily between two events.
  \<^item> Views are references (\<open>view_ref\<close>); the snapshot maps a reference to what
    \<^verbatim>\<open>view.document()\<close> and \<^verbatim>\<open>view.canvas()\<close> answer at that moment.
  \<^item> Strings are ASCII (code points below 128); the whitespace and digit classes of
    \<^verbatim>\<open>re\<close> beyond ASCII, such as the no-break space, are not represented.
  \<^item> The override cursor and the installation of the event filter in \<^verbatim>\<open>QApplication\<close>
    are effects on the host that no modelled function reads; only the flag
    \<open>filter_installed\<close> of the extension is kept.
\<close>

subsection \<open>Exceptions\<close>

datatype exn = AttributeError | TypeError | ValueError | ZeroDivisionError | OverflowError
  | RuntimeError

type_synonym 'a result = "exn + 'a"

definition bindR :: "'a result \<Rightarrow> ('a \<Rightarrow> 'b result) \<Rightarrow> 'b result" where
  "bindR m f = (case m of Inl e \<Rightarrow> Inl e | Inr v \<Rightarrow> f v)"

definition try_except :: "'a result \<Rightarrow> (exn \<Rightarrow> 'a result) \<Rightarrow> 'a result" where
  "try_except body handler = (case body of Inl e \<Rightarrow> handler e | Inr v \<Rightarrow> Inr v)"

subsection \<open>Python values and arithmetic\<close>

text \<open>What a host getter hands to \<^verbatim>\<open>float(...)\<close>: a number, or an object that
  \<^verbatim>\<open>float\<close> rejects.\<close>

datatype pyval = PyNum real | PyOther

fun py_float :: "pyval \<Rightarrow> real result" where
  "py_float (PyNum r) = Inr r"
| "py_float PyOther = Inl TypeError"

definition py_truediv :: "real \<Rightarrow> real \<Rightarrow> real result" where
  "py_truediv a b = (if b = 0 then Inl ZeroDivisionError else Inr (a / b))"

text \<open>\<^verbatim>\<open>2.0 ** e\<close>: Python raises \<^verbatim>\<open>OverflowError\<close> when the result exceeds the largest
  double, that is from \<open>e = 1024\<close> on.\<close>

definition py_pow2 :: "real \<Rightarrow> real result" where
  "py_pow2 e = (if 1024 \<le> e then Inl OverflowError else Inr (2 powr e))"

subsection \<open>Strings: \<^verbatim>\<open>lower\<close>, \<^verbatim>\<open>in\<close>, the two regular expressions, \<^verbatim>\<open>float\<close>\<close>

definition lower_char :: "char \<Rightarrow> char" where
  "lower_char c = (let n = (of_char c :: nat) in
     if 65 \<le> n \<and> n \<le> 90 then char_of (n + 32) else c)"

definition lower :: "string \<Rightarrow> string" where
  "lower s = map lower_char s"

fun str_contains :: "string \<Rightarrow> string \<Rightarrow> bool" where
  "str_contains needle [] = (needle = [])"
| "str_contains needle (c # cs) =
     (take (length needle) (c # cs) = needle \<or> str_contains needle cs)"

text \<open>The classes \<^verbatim>\<open>\s\<close> and \<^verbatim>\<open>[\d.]\<close> of Python's \<^verbatim>\<open>re\<close> on ASCII text.\<close>

definition is_space :: "char \<Rightarrow> bool" where
  "is_space c = ((of_char c :: nat) \<in> {9, 10, 11, 12, 13, 28, 29, 30, 31, 32})"

definition is_digit :: "char \<Rightarrow> bool" where
  "is_digit c = (let n = (of_char c :: nat) in 48 \<le> n \<and> n \<le> 57)"

definition is_digit_or_dot :: "char \<Rightarrow> bool" where
  "is_digit_or_dot c = (is_digit c \<or> c = CHR ''.'')"

text \<open>\<^verbatim>\<open>re.match(r'^\s*([\d.]+)\s*%\s*$', text)\<close>, returning group 1. The three classes and
  the percent sign are pairwise disjoint, so the greedy match never backtracks.\<close>

definition match_percent :: "string \<Rightarrow> string option" where
  "match_percent s =
     (let s1 = dropWhile is_space s;
          num = takeWhile is_digit_or_dot s1;
          s2 = dropWhile is_space (dropWhile is_digit_or_dot s1)
      in case s2 of
           [] \<Rightarrow> None
         | c # s3 \<Rightarrow>
             if num \<noteq> [] \<and> c = CHR ''%'' \<and> dropWhile is_space s3 = [] then Some num
             else None)"

text \<open>\<^verbatim>\<open>re.search(r'@\s*([\d.]+)\s*%', title)\<close>, returning group 1 of the leftmost match.\<close>

fun search_at_percent :: "string \<Rightarrow> string option" where
  "search_at_percent [] = None"
| "search_at_percent (c # cs) =
     (let s1 = dropWhile is_space cs;
          num = takeWhile is_digit_or_dot s1;
          s2 = dropWhile is_space (dropWhile is_digit_or_dot s1)
      in if c = CHR ''@'' \<and> num \<noteq> [] \<and> take 1 s2 = ''%'' then Some num
         else search_at_percent cs)"

definition digit_val :: "char \<Rightarrow> nat" where
  "digit_val c = of_char c - 48"

definition dec_nat :: "string \<Rightarrow> nat" where
  "dec_nat ds = foldl (\<lambda>a c. 10 * a + digit_val c) 0 ds"

text \<open>\<^verbatim>\<open>float(s)\<close> for a string \<open>s\<close> of digits and dots, which is all group 1 can hold:
  at most one dot and at least one digit, or \<^verbatim>\<open>ValueError\<close>.\<close>

definition float_of_digits :: "string \<Rightarrow> real result" where
  "float_of_digits s =
     (let ip = takeWhile is_digit s; rest = dropWhile is_digit s
      in case rest of
           [] \<Rightarrow> if ip = [] then Inl ValueError else Inr (real (dec_nat ip))
         | c # fp \<Rightarrow>
             if c = CHR ''.'' \<and> list_all is_digit fp \<and> (ip \<noteq> [] \<or> fp \<noteq> [])
             then Inr (real (dec_nat ip) + real (dec_nat fp) / 10 ^ length fp)
             else Inl ValueError)"

fun str_of_nat :: "nat \<Rightarrow> string" where
  "str_of_nat n =
     (if n < 10 then [char_of (48 + n)]
      else str_of_nat (n div 10) @ [char_of (48 + n mod 10)])"

subsection \<open>The host: Krita and Qt objects as the code reads them\<close>

type_synonym view_ref = nat

record document =
  py_id :: nat
  fileName :: "string result"
  resolution :: "pyval result"

record canvas =
  zoomLevel :: "pyval result"
  setZoomLevel :: "real \<Rightarrow> unit result"

datatype widget_kind = QComboBox | QLineEdit | QToolButton | QLabel

text \<open>\<open>widget_text\<close> is \<^verbatim>\<open>currentText()\<close> of a combo box and \<^verbatim>\<open>text()\<close> of the other
  three kinds.\<close>

record widget =
  kind :: widget_kind
  objectName :: "string result"
  accessibleName :: "string result"
  widget_text :: "string result"

record statusbar =
  sb_findChildren :: "widget list result"

text \<open>\<open>findChildren\<close> and \<open>sb_findChildren\<close> are the calls with the tuple of the four
  widget classes; \<open>findChild_QStatusBar\<close> is \<^verbatim>\<open>findChild(QStatusBar)\<close>.\<close>

record qmainwindow =
  findChildren :: "widget list result"
  findChild_QStatusBar :: "statusbar option result"
  windowTitle :: "string result"

record window =
  activeView :: "view_ref option result"
  qwindow :: "qmainwindow option result"

record app =
  activeWindow :: "window option result"
  activeDocument :: "document option result"

record host =
  Krita_instance :: "app option"
  view_document :: "view_ref \<Rightarrow> document option result"
  view_canvas :: "view_ref \<Rightarrow> canvas option result"

record qpoint =
  qx :: int
  qy :: int

datatype event_type = MouseButtonPress | MouseMove | MouseButtonRelease | KeyRelease
  | OtherEvent

datatype mouse_button = LeftButton | OtherButton

text \<open>\<open>globalPosF\<close> stands for \<^verbatim>\<open>event.globalPosF().toPoint()\<close>.\<close>

record event =
  etype :: event_type
  button :: mouse_button
  isAutoRepeat :: bool
  globalPos :: "qpoint result"
  globalPosF :: "qpoint result"

subsection \<open>The extension's state\<close>

definition REFERENCE_DPI :: real where
  "REFERENCE_DPI = 72"

record ext =
  zoom_mode_active :: bool
  is_dragging :: bool
  drag_start_x :: int
  active_view :: "view_ref option"
  initial_zoom_scale :: real
  last_set_zoom_scale :: "real option"
  document_zoom_cache :: "string \<rightharpoonup> real"
  zoom_sensitivity :: real
  filter_installed :: bool

text \<open>\<^verbatim>\<open>ScrubbyZoomExtension.__init__\<close>.\<close>

definition init_ext :: ext where
  "init_ext = \<lparr> zoom_mode_active = False, is_dragging = False, drag_start_x = 0,
     active_view = None, initial_zoom_scale = 1, last_set_zoom_scale = None,
     document_zoom_cache = Map.empty, zoom_sensitivity = 150, filter_installed = False \<rparr>"

subsection \<open>Utilities\<close>

text \<open>\<^verbatim>\<open>Krita.instance().activeWindow()\<close> and \<^verbatim>\<open>Krita.instance().activeDocument()\<close> where the
  source does not test the instance first: on \<^verbatim>\<open>None\<close> the attribute access raises.\<close>

definition instance_activeWindow :: "host \<Rightarrow> window option result" where
  "instance_activeWindow h =
     (case Krita_instance h of None \<Rightarrow> Inl AttributeError | Some a \<Rightarrow> activeWindow a)"

definition instance_activeDocument :: "host \<Rightarrow> document option result" where
  "instance_activeDocument h =
     (case Krita_instance h of None \<Rightarrow> Inl AttributeError | Some a \<Rightarrow> activeDocument a)"

definition has_active_document :: "host \<Rightarrow> bool result" where
  "has_active_document h =
     try_except
       (case Krita_instance h of
          None \<Rightarrow> Inr False
        | Some a \<Rightarrow>
            bindR (activeWindow a) (\<lambda>w. case w of
              None \<Rightarrow> Inr False
            | Some win \<Rightarrow>
                bindR (activeView win) (\<lambda>v. case v of
                  None \<Rightarrow> Inr False
                | Some _ \<Rightarrow> bindR (activeDocument a) (\<lambda>d. Inr (d \<noteq> None)))))
       (\<lambda>e. Inr False)"

definition get_current_view :: "host \<Rightarrow> view_ref option result" where
  "get_current_view h =
     try_except
       (case Krita_instance h of
          None \<Rightarrow> Inr None
        | Some a \<Rightarrow>
            bindR (activeWindow a) (\<lambda>w. case w of
              None \<Rightarrow> Inr None
            | Some win \<Rightarrow> activeView win))
       (\<lambda>e. Inr None)"

definition get_document_id :: "host \<Rightarrow> string option result" where
  "get_document_id h =
     try_except
       (bindR (instance_activeDocument h) (\<lambda>doc. case doc of
          None \<Rightarrow> Inr None
        | Some d \<Rightarrow>
            bindR (fileName d) (\<lambda>fname.
              if fname \<noteq> [] then Inr (Some fname)
              else Inr (Some (''untitled_'' @ str_of_nat (py_id d))))))
       (\<lambda>e. Inr None)"

definition event_global_pos :: "event \<Rightarrow> qpoint option result" where
  "event_global_pos ev =
     try_except (bindR (globalPos ev) (\<lambda>p. Inr (Some p)))
       (\<lambda>e. try_except (bindR (globalPosF ev) (\<lambda>p. Inr (Some p))) (\<lambda>e. Inr None))"

subsection \<open>Zoom reading\<close>

definition doc_dpi :: "host \<Rightarrow> view_ref option \<Rightarrow> real result" where
  "doc_dpi h view =
     bindR
       (try_except
          (bindR (case view of None \<Rightarrow> Inr None | Some v \<Rightarrow> view_document h v) (\<lambda>doc.
             case doc of
               None \<Rightarrow> Inr None
             | Some d \<Rightarrow>
                 bindR (resolution d) (\<lambda>res.
                 bindR (py_float res) (\<lambda>dpi.
                   if dpi > 0 then Inr (Some dpi) else Inr None))))
          (\<lambda>e. Inr None))
       (\<lambda>returned. case returned of Some dpi \<Rightarrow> Inr dpi | None \<Rightarrow> Inr REFERENCE_DPI)"

definition canvas_zoom_raw :: "host \<Rightarrow> view_ref option \<Rightarrow> real option result" where
  "canvas_zoom_raw h view =
     try_except
       (bindR (case view of None \<Rightarrow> Inr None | Some v \<Rightarrow> view_canvas h v) (\<lambda>cv.
          case cv of
            None \<Rightarrow> Inr None
          | Some c \<Rightarrow>
              bindR (zoomLevel c) (\<lambda>z.
              bindR (py_float z) (\<lambda>r. Inr (Some r)))))
       (\<lambda>e. Inr None)"

definition canvas_zoom_corrected :: "real \<Rightarrow> real \<Rightarrow> real result" where
  "canvas_zoom_corrected raw_zoom dpi =
     try_except
       (let factor = dpi / REFERENCE_DPI
        in if factor \<le> 0 then Inr raw_zoom else py_truediv raw_zoom factor)
       (\<lambda>e. Inr raw_zoom)"

text \<open>The candidate test of the first loop of \<^verbatim>\<open>_zoom_scale_from_ui\<close>: both names are read
  before the test, and a widget whose accessor raises is skipped.\<close>

definition zoom_named :: "widget \<Rightarrow> bool" where
  "zoom_named w =
     (case objectName w of
        Inl e \<Rightarrow> False
      | Inr obj_name \<Rightarrow>
          (case accessibleName w of
             Inl e \<Rightarrow> False
           | Inr acc_name \<Rightarrow>
               str_contains ''zoom'' (lower obj_name) \<or> str_contains ''zoom'' (lower acc_name)))"

text \<open>The inner function \<^verbatim>\<open>read_percent_text\<close>: reading the text is guarded, the final
  \<^verbatim>\<open>float(m.group(1))\<close> is not.\<close>

definition read_percent_text :: "widget \<Rightarrow> real option result" where
  "read_percent_text w =
     (case widget_text w of
        Inl e \<Rightarrow> Inr None
      | Inr txt \<Rightarrow>
          if txt = [] then Inr None
          else (case match_percent txt of
                  None \<Rightarrow> Inr None
                | Some g \<Rightarrow> bindR (float_of_digits g) (\<lambda>f. Inr (Some f))))"

text \<open>The loop that picks the first pure percent token from the candidates.\<close>

fun first_percent :: "widget list \<Rightarrow> real option result" where
  "first_percent [] = Inr None"
| "first_percent (w # ws) =
     (case read_percent_text w of
        Inl e \<Rightarrow> Inl e
      | Inr (Some val) \<Rightarrow> Inr (Some (val / 100))
      | Inr None \<Rightarrow> first_percent ws)"

definition zoom_scale_from_ui :: "host \<Rightarrow> real option result" where
  "zoom_scale_from_ui h =
     try_except
       (bindR (instance_activeWindow h) (\<lambda>win. case win of
          None \<Rightarrow> Inr None
        | Some w \<Rightarrow>
            bindR (qwindow w) (\<lambda>qwin. case qwin of
              None \<Rightarrow> Inr None
            | Some q \<Rightarrow>
                bindR (findChildren q) (\<lambda>children.
                bindR (let candidates = filter zoom_named children
                       in if candidates = []
                          then bindR (findChild_QStatusBar q) (\<lambda>status_bar.
                                 case status_bar of
                                   None \<Rightarrow> Inr candidates
                                 | Some sb \<Rightarrow> sb_findChildren sb)
                          else Inr candidates) (\<lambda>candidates.
                bindR (first_percent candidates) (\<lambda>found. case found of
                  Some v \<Rightarrow> Inr (Some v)
                | None \<Rightarrow>
                    bindR (windowTitle q) (\<lambda>title.
                      case search_at_percent title of
                        None \<Rightarrow> Inr None
                      | Some g \<Rightarrow>
                          bindR (float_of_digits g) (\<lambda>f. Inr (Some (f / 100))))))))))
       (\<lambda>e. Inr None)"

definition get_current_zoom_scale :: "host \<Rightarrow> ext \<Rightarrow> view_ref option \<Rightarrow> real result" where
  "get_current_zoom_scale h s view =
     bindR (zoom_scale_from_ui h) (\<lambda>ui_scale.
     bindR (canvas_zoom_raw h view) (\<lambda>raw_opt.
       case raw_opt of
         None \<Rightarrow>
           bindR (get_document_id h) (\<lambda>doc_id.
             case (case doc_id of
                     None \<Rightarrow> None
                   | Some d \<Rightarrow> if d \<noteq> [] then document_zoom_cache s d else None) of
               Some cached \<Rightarrow> Inr cached
             | None \<Rightarrow> Inr (case ui_scale of Some u \<Rightarrow> u | None \<Rightarrow> 1))
       | Some raw \<Rightarrow>
           bindR (doc_dpi h view) (\<lambda>dpi.
           bindR (canvas_zoom_corrected raw dpi) (\<lambda>corrected.
             case (case ui_scale of
                     None \<Rightarrow> None
                   | Some u \<Rightarrow> if u > 0 then Some u else None) of
               Some u \<Rightarrow>
                 (let dr = \<bar>raw - u\<bar>; dc = \<bar>corrected - u\<bar>
                  in Inr (if dc \<le> dr then corrected else raw))
             | None \<Rightarrow>
                 if \<bar>dpi - REFERENCE_DPI\<bar> > 1 / 1000 then
                   (if raw > 10 \<and> corrected \<le> 10 then Inr corrected
                    else if corrected < 1 / 100 \<and> raw \<ge> 1 / 100 then Inr raw
                    else Inr corrected)
                 else Inr raw))))"

subsection \<open>Mode lifecycle\<close>

definition activate_zoom_mode :: "host \<Rightarrow> ext \<Rightarrow> ext result" where
  "activate_zoom_mode h s =
     bindR (has_active_document h) (\<lambda>has_doc.
       if \<not> has_doc \<or> zoom_mode_active s then Inr s
       else Inr (s\<lparr> zoom_mode_active := True, is_dragging := False, active_view := None,
                     last_set_zoom_scale := None, filter_installed := True \<rparr>))"

definition deactivate_zoom_mode :: "ext \<Rightarrow> ext result" where
  "deactivate_zoom_mode s =
     (if \<not> zoom_mode_active s then Inr s
      else Inr (s\<lparr> zoom_mode_active := False, is_dragging := False, active_view := None \<rparr>))"

subsection \<open>Drag and zoom\<close>

text \<open>In \<open>start_drag\<close> the test \<^verbatim>\<open>global_pos is None\<close> is the \<open>None\<close> case of the position;
  both tests lead to the same abort, so their order does not show.\<close>

definition start_drag :: "host \<Rightarrow> qpoint option \<Rightarrow> ext \<Rightarrow> ext result" where
  "start_drag h global_pos s =
     bindR (has_active_document h) (\<lambda>has_doc.
       case global_pos of
         None \<Rightarrow> deactivate_zoom_mode s
       | Some p \<Rightarrow>
           if \<not> has_doc then deactivate_zoom_mode s
           else
             bindR (get_current_view h) (\<lambda>view.
               let s1 = s\<lparr> is_dragging := True, drag_start_x := qx p, active_view := view \<rparr>
               in bindR (get_current_zoom_scale h s1 (active_view s1)) (\<lambda>zoom_scale.
                  bindR (get_document_id h) (\<lambda>doc_id.
                    let s2 = (case doc_id of
                                None \<Rightarrow> s1
                              | Some d \<Rightarrow>
                                  if d \<noteq> []
                                  then s1\<lparr> document_zoom_cache :=
                                              (document_zoom_cache s1)(d \<mapsto> zoom_scale) \<rparr>
                                  else s1)
                    in Inr (s2\<lparr> initial_zoom_scale := zoom_scale,
                                 last_set_zoom_scale := Some zoom_scale \<rparr>)))))"

text \<open>The drag-to-zoom mapping, lines 412 to 416 of \<^verbatim>\<open>update_zoom\<close>: the exponential factor
  and the clamp. Pointer coordinates are C integers, so \<^verbatim>\<open>float(delta_x)\<close> is exact.\<close>

definition drag_new_scale :: "real \<Rightarrow> real \<Rightarrow> int \<Rightarrow> real result" where
  "drag_new_scale initial sensitivity delta_x =
     bindR (py_truediv (real_of_int delta_x) sensitivity) (\<lambda>e.
     bindR (py_pow2 e) (\<lambda>zoom_factor.
       let new_scale = initial * zoom_factor
       in Inr (max (1 / 100) (min 256 new_scale))))"

text \<open>Inside the \<^verbatim>\<open>try\<close> of \<open>update_zoom\<close> the state is written only after the last call
  that can raise, so the handler resumes from the state at entry.\<close>

definition update_zoom :: "host \<Rightarrow> qpoint option \<Rightarrow> ext \<Rightarrow> ext result" where
  "update_zoom h global_pos s =
     (case global_pos of
        None \<Rightarrow> Inr s
      | Some p \<Rightarrow>
          if \<not> is_dragging s then Inr s
          else (case active_view s of
                  None \<Rightarrow> Inr s
                | Some view \<Rightarrow>
                    try_except
                      (bindR (view_canvas h view) (\<lambda>cv. case cv of
                         None \<Rightarrow> Inr s
                       | Some c \<Rightarrow>
                           let delta_x = qx p - drag_start_x s
                           in bindR (drag_new_scale (initial_zoom_scale s)
                                       (zoom_sensitivity s) delta_x) (\<lambda>new_scale.
                              bindR (setZoomLevel c new_scale) (\<lambda>_.
                                let s1 = s\<lparr> last_set_zoom_scale := Some new_scale \<rparr>
                                in bindR (get_document_id h) (\<lambda>doc_id.
                                     case doc_id of
                                       None \<Rightarrow> Inr s1
                                     | Some d \<Rightarrow>
                                         if d \<noteq> []
                                         then Inr (s1\<lparr> document_zoom_cache :=
                                                (document_zoom_cache s1)(d \<mapsto> new_scale) \<rparr>)
                                         else Inr s1)))))
                      (\<lambda>e. Inr s)))"

definition end_drag :: "ext \<Rightarrow> ext result" where
  "end_drag s = Inr (s\<lparr> is_dragging := False, active_view := None \<rparr>)"

subsection \<open>The event filter\<close>

text \<open>\<^verbatim>\<open>ZoomEventFilter.eventFilter\<close>: the boolean says whether the event is consumed.\<close>

definition eventFilter :: "host \<Rightarrow> event \<Rightarrow> ext \<Rightarrow> (bool \<times> ext) result" where
  "eventFilter h ev s =
     (if \<not> zoom_mode_active s then Inr (False, s)
      else (case etype ev of
              MouseButtonPress \<Rightarrow>
                if button ev = LeftButton
                then bindR (event_global_pos ev) (\<lambda>pos.
                     bindR (start_drag h pos s) (\<lambda>s'. Inr (True, s')))
                else Inr (False, s)
            | MouseMove \<Rightarrow>
                if is_dragging s
                then bindR (event_global_pos ev) (\<lambda>pos.
                     bindR (update_zoom h pos s) (\<lambda>s'. Inr (True, s')))
                else Inr (False, s)
            | MouseButtonRelease \<Rightarrow>
                if button ev = LeftButton \<and> is_dragging s
                then bindR (end_drag s) (\<lambda>s'. Inr (True, s'))
                else Inr (False, s)
            | KeyRelease \<Rightarrow>
                if \<not> isAutoRepeat ev
                then bindR (deactivate_zoom_mode s) (\<lambda>s'. Inr (False, s'))
                else Inr (False, s)
            | OtherEvent \<Rightarrow> Inr (False, s)))"

subsection \<open>Runs of the plugin\<close>

text \<open>The host reaches the extension through two entry points: the registered action, which
  is connected to \<^verbatim>\<open>activate_zoom_mode\<close>, and the installed event filter. In the plugin as it
  is installed, \<open>start_drag\<close>, \<open>update_zoom\<close>, \<open>end_drag\<close> and \<open>deactivate_zoom_mode\<close> run only
  as the filter calls them. A run is a list of inputs, each with the host snapshot it
  meets.\<close>

datatype input = Activate | Event event

definition step :: "host \<Rightarrow> input \<Rightarrow> ext \<Rightarrow> ext result" where
  "step h inp s =
     (case inp of
        Activate \<Rightarrow> activate_zoom_mode h s
      | Event ev \<Rightarrow> bindR (eventFilter h ev s) (\<lambda>r. Inr (snd r)))"

fun run :: "(host \<times> input) list \<Rightarrow> ext \<Rightarrow> ext result" where
  "run [] s = Inr s"
| "run (hi # rest) s =
     (case step (fst hi) (snd hi) s of Inl e \<Rightarrow> Inl e | Inr s' \<Rightarrow> run rest s')"

text \<open>The answers of the filter to a list of events, with the state they leave.\<close>

fun filter_events :: "(host \<times> event) list \<Rightarrow> ext \<Rightarrow> (bool list \<times> ext) result" where
  "filter_events [] s = Inr ([], s)"
| "filter_events (he # rest) s =
     (case eventFilter (fst he) (snd he) s of
        Inl e \<Rightarrow> Inl e
      | Inr r \<Rightarrow>
          (case filter_events rest (snd r) of
             Inl e \<Rightarrow> Inl e
           | Inr rs \<Rightarrow> Inr (fst r # fst rs, snd rs)))"

subsection \<open>Direct calls of the drag operations\<close>





subsection \<open>Example hosts and events\<close>

text \<open>A label of the zoom widget showing \<open>txt\<close>.\<close>

definition zoom_label :: "string \<Rightarrow> widget" where
  "zoom_label txt = \<lparr> kind = QLabel, objectName = Inr ''zoomLabel'', accessibleName = Inr [],
     widget_text = Inr txt \<rparr>"

text \<open>A host with one window, one view (reference 0), one document and one canvas whose
  setter accepts every value: \<open>widgets\<close> are the children of the window, \<open>zoom\<close> is what
  \<^verbatim>\<open>zoomLevel()\<close> answers and \<open>res\<close> what \<^verbatim>\<open>resolution()\<close> answers.\<close>

definition simple_host ::
  "widget list \<Rightarrow> string \<Rightarrow> pyval result \<Rightarrow> pyval result \<Rightarrow> string \<Rightarrow> host" where
  "simple_host widgets title zoom res fname =
     (let doc = \<lparr> py_id = 1, fileName = Inr fname, resolution = res \<rparr>;
          cv = \<lparr> zoomLevel = zoom, setZoomLevel = (\<lambda>_. Inr ()) \<rparr>;
          qw = \<lparr> findChildren = Inr widgets, findChild_QStatusBar = Inr None,
                 windowTitle = Inr title \<rparr>;
          win = \<lparr> activeView = Inr (Some 0), qwindow = Inr (Some qw) \<rparr>;
          a = \<lparr> activeWindow = Inr (Some win), activeDocument = Inr (Some doc) \<rparr>
      in \<lparr> Krita_instance = Some a, view_document = (\<lambda>v. Inr (Some doc)),
           view_canvas = (\<lambda>v. Inr (Some cv)) \<rparr>)"

text \<open>A host with no application object: every lookup fails.\<close>

definition no_host :: host where
  "no_host = \<lparr> Krita_instance = None, view_document = (\<lambda>v. Inl RuntimeError),
     view_canvas = (\<lambda>v. Inl RuntimeError) \<rparr>"

definition left_press :: "int \<Rightarrow> event" where
  "left_press x = \<lparr> etype = MouseButtonPress, button = LeftButton, isAutoRepeat = False,
     globalPos = Inr \<lparr> qx = x, qy = 0 \<rparr>, globalPosF = Inl AttributeError \<rparr>"

definition mouse_move :: "int \<Rightarrow> event" where
  "mouse_move x = \<lparr> etype = MouseMove, button = OtherButton, isAutoRepeat = False,
     globalPos = Inr \<lparr> qx = x, qy = 0 \<rparr>, globalPosF = Inl AttributeError \<rparr>"

definition key_release :: event where
  "key_release = \<lparr> etype = KeyRelease, button = OtherButton, isAutoRepeat = False,
     globalPos = Inl AttributeError, globalPosF = Inl AttributeError \<rparr>"

subsection \<open>The invariant of the proofs\<close>

text \<open>What the proofs carry along a run: a drag happens only in active mode and on a view,
  and outside the mode no view is held.\<close>

definition mode_inv :: "ext \<Rightarrow> bool" where
  "mode_inv s =
     ((is_dragging s \<longrightarrow> zoom_mode_active s \<and> active_view s \<noteq> None) \<and>
      (\<not> zoom_mode_active s \<longrightarrow> active_view s = None))"

section \<open>Properties\<close>

subsection \<open>No helper lets an exception escape\<close>

lemma try_except_total: "\<exists>v. try_except body (\<lambda>e. Inr d) = Inr v"
  by (cases body) (simp_all add: try_except_def)

lemma has_active_document_total: "\<exists>b. has_active_document h = Inr b"
  unfolding has_active_document_def by (rule try_except_total)

lemma get_current_view_total: "\<exists>v. get_current_view h = Inr v"
  unfolding get_current_view_def by (rule try_except_total)

lemma get_document_id_total: "\<exists>d. get_document_id h = Inr d"
  unfolding get_document_id_def by (rule try_except_total)

lemma get_document_id_nonempty: "get_document_id h \<noteq> Inr (Some [])"
  by (auto simp: get_document_id_def try_except_def bindR_def
      split: sum.splits option.splits if_splits)

lemma event_global_pos_total: "\<exists>p. event_global_pos ev = Inr p"
  by (auto simp: event_global_pos_def try_except_def bindR_def split: sum.splits)

lemma canvas_zoom_raw_total: "\<exists>r. canvas_zoom_raw h view = Inr r"
  unfolding canvas_zoom_raw_def by (rule try_except_total)

lemma zoom_scale_from_ui_total: "\<exists>u. zoom_scale_from_ui h = Inr u"
  unfolding zoom_scale_from_ui_def by (rule try_except_total)

subsection \<open>The resolution and the correction\<close>

lemma doc_dpi_cases:
  "doc_dpi h view = Inr REFERENCE_DPI \<or>
   (\<exists>v d dpi. view = Some v \<and> view_document h v = Inr (Some d) \<and>
      resolution d = Inr (PyNum dpi) \<and> 0 < dpi \<and> doc_dpi h view = Inr dpi)"
proof (cases "\<exists>v d dpi. view = Some v \<and> view_document h v = Inr (Some d) \<and>
      resolution d = Inr (PyNum dpi) \<and> 0 < dpi")
  case True
  then show ?thesis by (auto simp: doc_dpi_def try_except_def bindR_def)
next
  case False
  then have "doc_dpi h view = Inr REFERENCE_DPI"
    by (auto simp: doc_dpi_def try_except_def bindR_def
        split: option.splits sum.splits elim: py_float.elims)
  then show ?thesis by simp
qed

lemma doc_dpi_pos: "\<exists>dpi. doc_dpi h view = Inr dpi \<and> 0 < dpi"
  using doc_dpi_cases [of h view] by (auto simp: REFERENCE_DPI_def)

lemma canvas_zoom_corrected_pos:
  "0 < dpi \<Longrightarrow> canvas_zoom_corrected raw dpi = Inr (raw / (dpi / 72))"
  by (simp add: canvas_zoom_corrected_def try_except_def py_truediv_def REFERENCE_DPI_def
      Let_def)

lemma canvas_zoom_corrected_nonpos:
  "dpi / 72 \<le> 0 \<Longrightarrow> canvas_zoom_corrected raw dpi = Inr raw"
  by (simp add: canvas_zoom_corrected_def try_except_def py_truediv_def REFERENCE_DPI_def
      Let_def)

lemma canvas_zoom_corrected_total: "\<exists>c. canvas_zoom_corrected raw dpi = Inr c"
  unfolding canvas_zoom_corrected_def by (rule try_except_total)

subsection \<open>The estimator by cases\<close>

lemma estimator_raw:
  assumes ui: "zoom_scale_from_ui h = Inr ui"
    and raw: "canvas_zoom_raw h view = Inr (Some raw)"
    and dpi: "doc_dpi h view = Inr dpi"
  shows "get_current_zoom_scale h s view =
     Inr (let corrected = raw / (dpi / 72) in
          case (case ui of None \<Rightarrow> None | Some u \<Rightarrow> if u > 0 then Some u else None) of
            Some u \<Rightarrow> if \<bar>corrected - u\<bar> \<le> \<bar>raw - u\<bar> then corrected else raw
          | None \<Rightarrow>
              if \<bar>dpi - 72\<bar> > 1 / 1000 then
                (if raw > 10 \<and> corrected \<le> 10 then corrected
                 else if corrected < 1 / 100 \<and> raw \<ge> 1 / 100 then raw
                 else corrected)
              else raw)"
proof -
  have pos: "0 < dpi" using doc_dpi_pos [of h view] dpi by simp
  show ?thesis
    by (cases ui)
      (auto simp: get_current_zoom_scale_def bindR_def ui raw dpi
        canvas_zoom_corrected_pos [OF pos] REFERENCE_DPI_def Let_def)
qed

lemma estimator_no_raw:
  assumes ui: "zoom_scale_from_ui h = Inr ui"
    and raw: "canvas_zoom_raw h view = Inr None"
    and did: "get_document_id h = Inr doc_id"
  shows "get_current_zoom_scale h s view =
     Inr (case (case doc_id of None \<Rightarrow> None | Some d \<Rightarrow> document_zoom_cache s d) of
            Some cached \<Rightarrow> cached
          | None \<Rightarrow> (case ui of Some u \<Rightarrow> u | None \<Rightarrow> 1))"
proof -
  have "doc_id \<noteq> Some []" using get_document_id_nonempty [of h] did by auto
  then show ?thesis
    by (auto simp: get_current_zoom_scale_def bindR_def ui raw did split: option.splits)
qed

lemma estimator_total: "\<exists>z. get_current_zoom_scale h s view = Inr z"
proof -
  obtain ui where ui: "zoom_scale_from_ui h = Inr ui" using zoom_scale_from_ui_total by blast
  obtain r where r: "canvas_zoom_raw h view = Inr r" using canvas_zoom_raw_total by blast
  obtain d where d: "get_document_id h = Inr d" using get_document_id_total by blast
  obtain dpi where dpi: "doc_dpi h view = Inr dpi" using doc_dpi_pos by blast
  show ?thesis
  proof (cases r)
    case None
    then show ?thesis using estimator_no_raw [OF ui _ d, of view s] r by simp
  next
    case (Some raw)
    then show ?thesis using estimator_raw [OF ui _ dpi, of raw s] r by simp
  qed
qed

lemma estimator_cache_only:
  assumes "document_zoom_cache s1 = document_zoom_cache s"
  shows "get_current_zoom_scale h s1 view = get_current_zoom_scale h s view"
  unfolding get_current_zoom_scale_def assms by (rule refl)

subsection \<open>Evaluating the example hosts\<close>

lemmas string_defs = lower_def lower_char_def is_space_def is_digit_def is_digit_or_dot_def
  match_percent_def digit_val_def dec_nat_def float_of_digits_def

lemmas host_defs = simple_host_def no_host_def zoom_label_def left_press_def mouse_move_def
  key_release_def instance_activeWindow_def instance_activeDocument_def
  has_active_document_def get_current_view_def get_document_id_def event_global_pos_def
  bindR_def try_except_def Let_def

lemmas zoom_defs = doc_dpi_def canvas_zoom_raw_def canvas_zoom_corrected_def zoom_named_def
  read_percent_text_def zoom_scale_from_ui_def py_truediv_def REFERENCE_DPI_def

lemma ui_none: "zoom_scale_from_ui (simple_host [] ''t'' z r f) = Inr None"
  by (simp add: host_defs zoom_defs string_defs)

lemma ui_label:
  "zoom_scale_from_ui (simple_host [zoom_label ''50%''] ''t'' z r f) = Inr (Some (1 / 2))"
  by (simp add: host_defs zoom_defs string_defs)


text \<open>Without a zoom widget the title is parsed.\<close>

lemma ui_title:
  "zoom_scale_from_ui (simple_host [] ''a.kra @ 50 %'' z r f) = Inr (Some (1 / 2))"
  by (simp add: host_defs zoom_defs string_defs)

lemma raw_simple:
  "canvas_zoom_raw (simple_host ws t (Inr (PyNum x)) r f) view =
     Inr (if view = None then None else Some x)"
  by (simp add: host_defs zoom_defs split: option.splits)

lemma raw_simple_fail: "canvas_zoom_raw (simple_host ws t (Inl e) r f) view = Inr None"
  by (simp add: host_defs zoom_defs split: option.splits)

lemma dpi_simple:
  "0 < d \<Longrightarrow> doc_dpi (simple_host ws t z (Inr (PyNum d)) f) (Some v) = Inr d"
  by (simp add: host_defs zoom_defs)

lemma id_simple: "f \<noteq> [] \<Longrightarrow> get_document_id (simple_host ws t z r f) = Inr (Some f)"
  by (simp add: host_defs)



subsection \<open>The estimator\<close>

text \<open>
  Claim C1, as the code has it. When the UI scale is absent, the raw zoom is available and
  the document resolution is further than 0.001 from 72: if raw exceeds 10 and the
  corrected value \<open>raw / (dpi / 72)\<close> is at most 10, the estimator returns the corrected
  value; otherwise, if corrected is below 0.01 and raw is at least 0.01, it returns raw; in
  every other case it returns corrected.
\<close>

theorem C1_no_ui_heuristic:
  assumes ui: "zoom_scale_from_ui h = Inr None"
    and raw: "canvas_zoom_raw h view = Inr (Some raw)"
    and dpi: "doc_dpi h view = Inr dpi"
    and far: "\<bar>dpi - REFERENCE_DPI\<bar> > 1 / 1000"
  shows "get_current_zoom_scale h s view =
     Inr (let corrected = raw / (dpi / REFERENCE_DPI)
          in if raw > 10 \<and> corrected \<le> 10 then corrected
             else if corrected < 1 / 100 \<and> raw \<ge> 1 / 100 then raw
             else corrected)"
  using far by (simp add: estimator_raw [OF ui raw dpi] REFERENCE_DPI_def Let_def)

text \<open>C1 at a host with no zoom widget, raw 0.02 and 720 dpi: corrected would be 0.002, so
  raw is kept.\<close>

theorem C1_no_ui_heuristic_witness:
  "zoom_scale_from_ui (simple_host [] ''t'' (Inr (PyNum (1 / 50))) (Inr (PyNum 720)) ''a.kra'')
     = Inr None
   \<and> canvas_zoom_raw (simple_host [] ''t'' (Inr (PyNum (1 / 50))) (Inr (PyNum 720)) ''a.kra'')
       (Some 0) = Inr (Some (1 / 50))
   \<and> doc_dpi (simple_host [] ''t'' (Inr (PyNum (1 / 50))) (Inr (PyNum 720)) ''a.kra'') (Some 0)
       = Inr 720
   \<and> \<bar>720 - REFERENCE_DPI\<bar> > 1 / 1000
   \<and> get_current_zoom_scale
        (simple_host [] ''t'' (Inr (PyNum (1 / 50))) (Inr (PyNum 720)) ''a.kra'') init_ext (Some 0)
       = Inr (1 / 50)"
proof -
  let ?h = "simple_host [] ''t'' (Inr (PyNum (1 / 50))) (Inr (PyNum 720)) ''a.kra''"
  have ui: "zoom_scale_from_ui ?h = Inr None" by (rule ui_none)
  have raw: "canvas_zoom_raw ?h (Some 0) = Inr (Some (1 / 50))" by (simp add: raw_simple)
  have dpi: "doc_dpi ?h (Some 0) = Inr 720" by (simp add: dpi_simple)
  have far: "\<bar>720 - REFERENCE_DPI\<bar> > 1 / 1000" by (simp add: REFERENCE_DPI_def)
  show ?thesis
    using C1_no_ui_heuristic [OF ui raw dpi far, of init_ext] ui raw dpi far
    by (simp add: REFERENCE_DPI_def)
qed

text \<open>C1 as the specification words it fails at raw 12 and 144 dpi: raw exceeds 10 and
  corrected is 6, and the estimator returns 6, not the raw 12.\<close>

theorem C1_keeps_raw_counterexample:
  "zoom_scale_from_ui (simple_host [] ''t'' (Inr (PyNum 12)) (Inr (PyNum 144)) ''a.kra'')
     = Inr None
   \<and> canvas_zoom_raw (simple_host [] ''t'' (Inr (PyNum 12)) (Inr (PyNum 144)) ''a.kra'') (Some 0)
       = Inr (Some 12)
   \<and> doc_dpi (simple_host [] ''t'' (Inr (PyNum 12)) (Inr (PyNum 144)) ''a.kra'') (Some 0)
       = Inr 144
   \<and> \<bar>144 - REFERENCE_DPI\<bar> > 1 / 1000
   \<and> (12 :: real) > 10 \<and> (12 :: real) / (144 / REFERENCE_DPI) \<le> 10
   \<and> get_current_zoom_scale (simple_host [] ''t'' (Inr (PyNum 12)) (Inr (PyNum 144)) ''a.kra'')
        init_ext (Some 0) = Inr 6
   \<and> get_current_zoom_scale (simple_host [] ''t'' (Inr (PyNum 12)) (Inr (PyNum 144)) ''a.kra'')
        init_ext (Some 0) \<noteq> Inr 12"
proof -
  let ?h = "simple_host [] ''t'' (Inr (PyNum 12)) (Inr (PyNum 144)) ''a.kra''"
  have ui: "zoom_scale_from_ui ?h = Inr None" by (rule ui_none)
  have raw: "canvas_zoom_raw ?h (Some 0) = Inr (Some 12)" by (simp add: raw_simple)
  have dpi: "doc_dpi ?h (Some 0) = Inr 144" by (simp add: dpi_simple)
  have "get_current_zoom_scale ?h init_ext (Some 0) = Inr 6"
    by (simp add: estimator_raw [OF ui raw dpi])
  then show ?thesis using ui raw dpi by (simp add: REFERENCE_DPI_def)
qed

text \<open>
  Claim C5. When the UI scale exists and is strictly positive and the raw zoom is
  available, the estimator returns whichever of raw and corrected is closer to the UI scale
  in absolute distance, and corrected when the distances are equal.
\<close>

theorem C5_ui_closest:
  assumes ui: "zoom_scale_from_ui h = Inr (Some u)"
    and pos: "0 < u"
    and raw: "canvas_zoom_raw h view = Inr (Some raw)"
  shows "\<exists>dpi corrected.
     doc_dpi h view = Inr dpi \<and> canvas_zoom_corrected raw dpi = Inr corrected \<and>
     corrected = raw / (dpi / REFERENCE_DPI) \<and>
     get_current_zoom_scale h s view =
       Inr (if \<bar>corrected - u\<bar> \<le> \<bar>raw - u\<bar> then corrected else raw)"
proof -
  obtain dpi where dpi: "doc_dpi h view = Inr dpi" and dpos: "0 < dpi"
    using doc_dpi_pos by blast
  show ?thesis
    using pos dpi canvas_zoom_corrected_pos [OF dpos, of raw]
    by (simp add: estimator_raw [OF ui raw dpi] REFERENCE_DPI_def Let_def)
qed

text \<open>C5 at a zoom label showing 50 percent, raw 1 and 144 dpi: corrected is 0.5.\<close>

theorem C5_ui_closest_witness:
  "zoom_scale_from_ui (simple_host [zoom_label ''50%''] ''t'' (Inr (PyNum 1)) (Inr (PyNum 144))
      ''a.kra'') = Inr (Some (1 / 2))
   \<and> (0 :: real) < 1 / 2
   \<and> canvas_zoom_raw (simple_host [zoom_label ''50%''] ''t'' (Inr (PyNum 1)) (Inr (PyNum 144))
        ''a.kra'') (Some 0) = Inr (Some 1)
   \<and> get_current_zoom_scale (simple_host [zoom_label ''50%''] ''t'' (Inr (PyNum 1))
        (Inr (PyNum 144)) ''a.kra'') init_ext (Some 0) = Inr (1 / 2)"
proof -
  let ?h = "simple_host [zoom_label ''50%''] ''t'' (Inr (PyNum 1)) (Inr (PyNum 144)) ''a.kra''"
  have ui: "zoom_scale_from_ui ?h = Inr (Some (1 / 2))" by (rule ui_label)
  have pos: "(0 :: real) < 1 / 2" by simp
  have raw: "canvas_zoom_raw ?h (Some 0) = Inr (Some 1)" by (simp add: raw_simple)
  have dpi: "doc_dpi ?h (Some 0) = Inr 144" by (simp add: dpi_simple)
  show ?thesis
    using C5_ui_closest [OF ui pos raw, of init_ext] ui raw dpi
    by (auto simp: REFERENCE_DPI_def)
qed

text \<open>
  Claim C7. When the raw zoom accessor gives no value, the estimator returns the cached
  scale of the current document if the cache has an entry for it, otherwise the UI scale if
  there is one, otherwise 1.
\<close>

theorem C7_raw_unavailable_fallback:
  assumes raw: "canvas_zoom_raw h view = Inr None"
  shows "\<exists>doc_id ui.
     get_document_id h = Inr doc_id \<and> zoom_scale_from_ui h = Inr ui \<and>
     get_current_zoom_scale h s view =
       Inr (case (case doc_id of None \<Rightarrow> None | Some d \<Rightarrow> document_zoom_cache s d) of
              Some cached \<Rightarrow> cached
            | None \<Rightarrow> (case ui of Some u \<Rightarrow> u | None \<Rightarrow> 1))"
proof -
  obtain ui where ui: "zoom_scale_from_ui h = Inr ui" using zoom_scale_from_ui_total by blast
  obtain d where d: "get_document_id h = Inr d" using get_document_id_total by blast
  show ?thesis using estimator_no_raw [OF ui raw d, of s] ui d by simp
qed

text \<open>C7 at a canvas whose \<^verbatim>\<open>zoomLevel()\<close> raises: with a cache entry, with a UI scale
  only, and with neither.\<close>

theorem C7_raw_unavailable_fallback_witness:
  "canvas_zoom_raw (simple_host [zoom_label ''50%''] ''t'' (Inl RuntimeError) (Inr (PyNum 144))
      ''a.kra'') (Some 0) = Inr None
   \<and> get_current_zoom_scale (simple_host [zoom_label ''50%''] ''t'' (Inl RuntimeError)
        (Inr (PyNum 144)) ''a.kra'')
        (init_ext\<lparr> document_zoom_cache := [''a.kra'' \<mapsto> 3] \<rparr>) (Some 0) = Inr 3
   \<and> get_current_zoom_scale (simple_host [zoom_label ''50%''] ''t'' (Inl RuntimeError)
        (Inr (PyNum 144)) ''a.kra'') init_ext (Some 0) = Inr (1 / 2)
   \<and> get_current_zoom_scale (simple_host [] ''t'' (Inl RuntimeError)
        (Inr (PyNum 144)) ''a.kra'') init_ext (Some 0) = Inr 1"
proof -
  let ?h = "simple_host [zoom_label ''50%''] ''t'' (Inl RuntimeError) (Inr (PyNum 144)) ''a.kra''"
  let ?g = "simple_host [] ''t'' (Inl RuntimeError) (Inr (PyNum 144)) ''a.kra''"
  have raw: "canvas_zoom_raw ?h (Some 0) = Inr None" by (rule raw_simple_fail)
  have rawg: "canvas_zoom_raw ?g (Some 0) = Inr None" by (rule raw_simple_fail)
  have ui: "zoom_scale_from_ui ?h = Inr (Some (1 / 2))" by (rule ui_label)
  have uig: "zoom_scale_from_ui ?g = Inr None" by (rule ui_none)
  have d: "get_document_id ?h = Inr (Some ''a.kra'')" by (simp add: id_simple)
  have dg: "get_document_id ?g = Inr (Some ''a.kra'')" by (simp add: id_simple)
  show ?thesis
    using C7_raw_unavailable_fallback [OF raw, of "init_ext\<lparr> document_zoom_cache := [''a.kra'' \<mapsto> 3] \<rparr>"]
      C7_raw_unavailable_fallback [OF raw, of init_ext]
      C7_raw_unavailable_fallback [OF rawg, of init_ext]
      raw ui uig d dg
    by (auto simp: init_ext_def)
qed





text \<open>
  Claim C10. \<open>doc_dpi\<close> answers 72 when there is no view or no document, when
  \<^verbatim>\<open>resolution()\<close> raises, when its value is not a number, and when it is not strictly
  positive; otherwise it answers the resolution. The factor the estimator divides by is
  therefore strictly positive, and \<open>canvas_zoom_corrected\<close> returns raw unchanged whenever
  \<open>dpi / 72\<close> is zero or negative.
\<close>

theorem C10_dpi_fallback_and_safe_division:
  "(view = None \<longrightarrow> doc_dpi h view = Inr REFERENCE_DPI)
   \<and> (\<forall>v. view = Some v \<and> (\<forall>d. view_document h v \<noteq> Inr (Some d)) \<longrightarrow>
          doc_dpi h view = Inr REFERENCE_DPI)
   \<and> (\<forall>v d. view = Some v \<and> view_document h v = Inr (Some d) \<longrightarrow>
          (\<forall>e. resolution d = Inl e \<longrightarrow> doc_dpi h view = Inr REFERENCE_DPI) \<and>
          (resolution d = Inr PyOther \<longrightarrow> doc_dpi h view = Inr REFERENCE_DPI) \<and>
          (\<forall>r. resolution d = Inr (PyNum r) \<longrightarrow>
               doc_dpi h view = Inr (if 0 < r then r else REFERENCE_DPI)))
   \<and> (\<exists>dpi. doc_dpi h view = Inr dpi \<and> 0 < dpi / REFERENCE_DPI \<and>
          canvas_zoom_corrected raw dpi = Inr (raw / (dpi / REFERENCE_DPI)))
   \<and> (\<forall>x. x / REFERENCE_DPI \<le> 0 \<longrightarrow> canvas_zoom_corrected raw x = Inr raw)"
proof (intro conjI allI impI)
  assume "view = None"
  then show "doc_dpi h view = Inr REFERENCE_DPI"
    by (simp add: doc_dpi_def try_except_def bindR_def)
next
  fix v
  assume "view = Some v \<and> (\<forall>d. view_document h v \<noteq> Inr (Some d))"
  then show "doc_dpi h view = Inr REFERENCE_DPI"
    by (auto simp: doc_dpi_def try_except_def bindR_def split: sum.splits option.splits)
next
  fix v d e
  assume "view = Some v \<and> view_document h v = Inr (Some d)" "resolution d = Inl e"
  then show "doc_dpi h view = Inr REFERENCE_DPI"
    by (simp add: doc_dpi_def try_except_def bindR_def)
next
  fix v d
  assume "view = Some v \<and> view_document h v = Inr (Some d)" "resolution d = Inr PyOther"
  then show "doc_dpi h view = Inr REFERENCE_DPI"
    by (simp add: doc_dpi_def try_except_def bindR_def)
next
  fix v d r
  assume "view = Some v \<and> view_document h v = Inr (Some d)" "resolution d = Inr (PyNum r)"
  then show "doc_dpi h view = Inr (if 0 < r then r else REFERENCE_DPI)"
    by (simp add: doc_dpi_def try_except_def bindR_def)
next
  obtain dpi where dpi: "doc_dpi h view = Inr dpi" and dpos: "0 < dpi"
    using doc_dpi_pos by blast
  show "\<exists>dpi. doc_dpi h view = Inr dpi \<and> 0 < dpi / REFERENCE_DPI \<and>
          canvas_zoom_corrected raw dpi = Inr (raw / (dpi / REFERENCE_DPI))"
    using dpi dpos canvas_zoom_corrected_pos [OF dpos, of raw]
    by (simp add: REFERENCE_DPI_def)
next
  fix x :: real
  assume "x / REFERENCE_DPI \<le> 0"
  then show "canvas_zoom_corrected raw x = Inr raw"
    by (simp add: canvas_zoom_corrected_nonpos REFERENCE_DPI_def)
qed

text \<open>C10 at hosts without a document, with a failing, non-numeric, zero, negative and
  positive resolution, and the correction at the factors 0 and -1.\<close>

theorem C10_dpi_fallback_and_safe_division_witness:
  "doc_dpi no_host None = Inr 72
   \<and> doc_dpi no_host (Some 0) = Inr 72
   \<and> doc_dpi (simple_host [] ''t'' (Inr (PyNum 1)) (Inl RuntimeError) ''a.kra'') (Some 0) = Inr 72
   \<and> doc_dpi (simple_host [] ''t'' (Inr (PyNum 1)) (Inr PyOther) ''a.kra'') (Some 0) = Inr 72
   \<and> doc_dpi (simple_host [] ''t'' (Inr (PyNum 1)) (Inr (PyNum 0)) ''a.kra'') (Some 0) = Inr 72
   \<and> doc_dpi (simple_host [] ''t'' (Inr (PyNum 1)) (Inr (PyNum (- 300))) ''a.kra'') (Some 0)
       = Inr 72
   \<and> doc_dpi (simple_host [] ''t'' (Inr (PyNum 1)) (Inr (PyNum 300)) ''a.kra'') (Some 0)
       = Inr 300
   \<and> canvas_zoom_corrected 5 0 = Inr 5
   \<and> canvas_zoom_corrected 5 (- 72) = Inr 5"
proof -
  let ?d = "\<lambda>res. \<lparr> py_id = 1, fileName = Inr ''a.kra'', resolution = res \<rparr>"
  have doc: "view_document (simple_host [] ''t'' (Inr (PyNum 1)) res ''a.kra'') 0
      = Inr (Some (?d res))" for res
    by (simp add: simple_host_def Let_def)
  have nodoc: "\<forall>d. view_document no_host 0 \<noteq> Inr (Some d)"
    by (simp add: no_host_def)
  note c = C10_dpi_fallback_and_safe_division
  show ?thesis
    using c [of None no_host 5] c [of "Some 0" no_host 5] nodoc
      c [of "Some 0" "simple_host [] ''t'' (Inr (PyNum 1)) (Inl RuntimeError) ''a.kra''" 5]
      c [of "Some 0" "simple_host [] ''t'' (Inr (PyNum 1)) (Inr PyOther) ''a.kra''" 5]
      c [of "Some 0" "simple_host [] ''t'' (Inr (PyNum 1)) (Inr (PyNum 0)) ''a.kra''" 5]
      c [of "Some 0" "simple_host [] ''t'' (Inr (PyNum 1)) (Inr (PyNum (- 300))) ''a.kra''" 5]
      c [of "Some 0" "simple_host [] ''t'' (Inr (PyNum 1)) (Inr (PyNum 300)) ''a.kra''" 5]
      doc
    by (simp add: REFERENCE_DPI_def)
qed

subsection \<open>The drag operations and the event filter\<close>

lemma has_doc_view:
  "has_active_document h = Inr True \<Longrightarrow> \<exists>v. get_current_view h = Inr (Some v)"
  by (auto simp: has_active_document_def get_current_view_def try_except_def bindR_def
      split: option.splits sum.splits if_splits)

lemma deactivate_idle:
  "\<exists>s'. deactivate_zoom_mode s = Inr s' \<and> \<not> zoom_mode_active s' \<and>
     (zoom_mode_active s \<longrightarrow>
        s' = s\<lparr> zoom_mode_active := False, is_dragging := False, active_view := None \<rparr>) \<and>
     (\<not> zoom_mode_active s \<longrightarrow> s' = s)"
  by (simp add: deactivate_zoom_mode_def)

lemma start_drag_abort:
  "has_active_document h = Inr False \<or> pos = None \<Longrightarrow>
   start_drag h pos s = deactivate_zoom_mode s"
  using has_active_document_total [of h]
  by (auto simp: start_drag_def bindR_def split: option.splits)

lemma start_drag_begin:
  assumes has: "has_active_document h = Inr True"
  shows "\<exists>v z doc_id.
     get_current_view h = Inr (Some v) \<and> get_current_zoom_scale h s (Some v) = Inr z \<and>
     get_document_id h = Inr doc_id \<and>
     start_drag h (Some p) s =
       Inr (s\<lparr> is_dragging := True, drag_start_x := qx p, active_view := Some v,
                document_zoom_cache :=
                  (case doc_id of None \<Rightarrow> document_zoom_cache s
                   | Some d \<Rightarrow> (document_zoom_cache s)(d \<mapsto> z)),
                initial_zoom_scale := z, last_set_zoom_scale := Some z \<rparr>)"
proof -
  obtain v where v: "get_current_view h = Inr (Some v)" using has_doc_view [OF has] by blast
  obtain z where z: "get_current_zoom_scale h s (Some v) = Inr z"
    using estimator_total by blast
  obtain doc_id where d: "get_document_id h = Inr doc_id"
    using get_document_id_total by blast
  have ne: "doc_id \<noteq> Some []" using get_document_id_nonempty [of h] d by auto
  let ?s1 = "s\<lparr> is_dragging := True, drag_start_x := qx p, active_view := Some v \<rparr>"
  have z1: "get_current_zoom_scale h ?s1 (Some v) = Inr z"
    using z estimator_cache_only [of ?s1 s h "Some v"] by simp
  have "start_drag h (Some p) s =
       Inr (s\<lparr> is_dragging := True, drag_start_x := qx p, active_view := Some v,
                document_zoom_cache :=
                  (case doc_id of None \<Rightarrow> document_zoom_cache s
                   | Some d \<Rightarrow> (document_zoom_cache s)(d \<mapsto> z)),
                initial_zoom_scale := z, last_set_zoom_scale := Some z \<rparr>)"
    using ne by (simp add: start_drag_def bindR_def has v z1 d Let_def split: option.splits)
  then show ?thesis using v z d by blast
qed

lemma update_zoom_cases:
  "update_zoom h pos s = Inr s \<or>
   (\<exists>p v c z doc_id.
      pos = Some p \<and> is_dragging s \<and> active_view s = Some v \<and>
      view_canvas h v = Inr (Some c) \<and>
      drag_new_scale (initial_zoom_scale s) (zoom_sensitivity s) (qx p - drag_start_x s) = Inr z \<and>
      setZoomLevel c z = Inr () \<and> get_document_id h = Inr doc_id \<and>
      update_zoom h pos s =
        Inr (s\<lparr> last_set_zoom_scale := Some z,
                 document_zoom_cache :=
                   (case doc_id of None \<Rightarrow> document_zoom_cache s
                    | Some d \<Rightarrow> (document_zoom_cache s)(d \<mapsto> z)) \<rparr>))"
  using get_document_id_nonempty [of h] get_document_id_total [of h]
  by (auto simp: update_zoom_def try_except_def bindR_def Let_def
      split: option.splits sum.splits if_splits)


lemma update_zoom_frame:
  "\<exists>s'. update_zoom h pos s = Inr s' \<and> zoom_mode_active s' = zoom_mode_active s \<and>
     is_dragging s' = is_dragging s \<and> active_view s' = active_view s \<and>
     initial_zoom_scale s' = initial_zoom_scale s \<and> drag_start_x s' = drag_start_x s"
  using update_zoom_cases [of h pos s] by auto

lemma mode_inv_init: "mode_inv init_ext"
  by (simp add: mode_inv_def init_ext_def)

lemma activate_inv:
  "mode_inv s \<Longrightarrow> \<exists>s'. activate_zoom_mode h s = Inr s' \<and> mode_inv s'"
  using has_active_document_total [of h]
  by (auto simp: activate_zoom_mode_def bindR_def mode_inv_def)


lemma start_drag_inv:
  assumes act: "zoom_mode_active s"
  shows "\<exists>s'. start_drag h pos s = Inr s' \<and> mode_inv s'"
proof -
  obtain b where b: "has_active_document h = Inr b" using has_active_document_total by blast
  show ?thesis
  proof (cases "b \<and> pos \<noteq> None")
    case True
    then obtain p where p: "pos = Some p" by auto
    from True b have has: "has_active_document h = Inr True" by simp
    show ?thesis
      using start_drag_begin [OF has, of s p] act p by (auto simp: mode_inv_def)
  next
    case False
    with b have "has_active_document h = Inr False \<or> pos = None" by auto
    then show ?thesis
      using act by (simp add: start_drag_abort deactivate_zoom_mode_def mode_inv_def)
  qed
qed

lemma eventFilter_inv:
  assumes inv: "mode_inv s"
  shows "\<exists>b s'. eventFilter h ev s = Inr (b, s') \<and> mode_inv s'"
proof (cases "zoom_mode_active s")
  case False
  then show ?thesis using inv by (auto simp: eventFilter_def)
next
  case act: True
  obtain pos where pos: "event_global_pos ev = Inr pos"
    using event_global_pos_total by blast
  obtain s1 where s1: "start_drag h pos s = Inr s1" "mode_inv s1"
    using start_drag_inv [OF act] by blast
  obtain s2 where s2: "update_zoom h pos s = Inr s2" "zoom_mode_active s2 = zoom_mode_active s"
    "is_dragging s2 = is_dragging s" "active_view s2 = active_view s"
    using update_zoom_frame [of h pos s] by blast
  have i2: "mode_inv s2" using inv s2 by (simp add: mode_inv_def)
  have i3: "mode_inv (s\<lparr> is_dragging := False, active_view := None \<rparr>)"
    using inv act by (simp add: mode_inv_def)
  have i4: "mode_inv (s\<lparr> zoom_mode_active := False, is_dragging := False, active_view := None \<rparr>)"
    by (simp add: mode_inv_def)
  show ?thesis
    using act inv pos s1 s2 i2 i3 i4
    by (cases "etype ev")
      (auto simp: eventFilter_def bindR_def end_drag_def deactivate_zoom_mode_def)
qed

lemma step_inv: "mode_inv s \<Longrightarrow> \<exists>s'. step h inp s = Inr s' \<and> mode_inv s'"
proof (cases inp)
  case Activate
  assume "mode_inv s"
  then show ?thesis using Activate activate_inv [of s h] by (simp add: step_def)
next
  case (Event ev)
  assume "mode_inv s"
  then show ?thesis using Event eventFilter_inv [of s h ev] by (auto simp: step_def bindR_def)
qed

lemma run_inv: "mode_inv s \<Longrightarrow> \<exists>s'. run tr s = Inr s' \<and> mode_inv s'"
proof (induction tr arbitrary: s)
  case Nil
  then show ?case by simp
next
  case (Cons hi tr)
  obtain s1 where s1: "step (fst hi) (snd hi) s = Inr s1" "mode_inv s1"
    using step_inv [OF Cons.prems] by blast
  show ?case using Cons.IH [OF s1(2)] s1(1) by simp
qed





lemma filter_events_idle:
  "\<not> zoom_mode_active s \<Longrightarrow> filter_events evs s = Inr (replicate (length evs) False, s)"
  by (induction evs) (simp_all add: eventFilter_def)



lemma drag_new_scale_zero:
  "sens \<noteq> 0 \<Longrightarrow> drag_new_scale initial sens 0 = Inr (max (1 / 100) (min 256 initial))"
  by (simp add: drag_new_scale_def bindR_def py_truediv_def py_pow2_def Let_def)


subsection \<open>The drag-to-zoom mapping and the state machine\<close>

lemmas machine_defs = step_def activate_zoom_mode_def deactivate_zoom_mode_def start_drag_def
  update_zoom_def end_drag_def eventFilter_def drag_new_scale_def py_pow2_def
  get_current_zoom_scale_def init_ext_def




text \<open>
  Claim C6, as the code has it. With displacement 0 the drag-to-zoom mapping yields the
  initial scale clamped to [0.01, 256]: exactly the initial scale when that lies in the
  interval, and the nearer bound otherwise.
\<close>

theorem C6_zero_displacement:
  "sens \<noteq> 0 \<Longrightarrow>
   drag_new_scale initial sens 0 = Inr (max (1 / 100) (min 256 initial)) \<and>
   (1 / 100 \<le> initial \<and> initial \<le> 256 \<longrightarrow> drag_new_scale initial sens 0 = Inr initial)"
  by (simp add: drag_new_scale_zero)

text \<open>C6 at the initial scales 3 and 1000 with the sensitivity 150.\<close>

theorem C6_zero_displacement_witness:
  "(150 :: real) \<noteq> 0 \<and> 1 / 100 \<le> (3 :: real) \<and> (3 :: real) \<le> 256
   \<and> drag_new_scale 3 150 0 = Inr 3
   \<and> drag_new_scale 1000 150 0 = Inr 256"
proof -
  have ne: "(150 :: real) \<noteq> 0" by simp
  show ?thesis
    using C6_zero_displacement [OF ne, of 3] C6_zero_displacement [OF ne, of 1000] by simp
qed

text \<open>C6 as the specification words it fails on a drag started at x = 100 on a host whose
  raw zoom is 0.005 at 72 dpi: a move to x = 100 sets the scale 0.01, not 0.005.\<close>

theorem C6_clamped_at_zero_counterexample:
  "map_sum id (\<lambda>s. (drag_start_x s, initial_zoom_scale s, last_set_zoom_scale s))
     (run [(simple_host [] ''t'' (Inr (PyNum (1 / 200))) (Inr (PyNum 72)) ''a.kra'', Activate),
           (simple_host [] ''t'' (Inr (PyNum (1 / 200))) (Inr (PyNum 72)) ''a.kra'',
            Event (left_press 100)),
           (simple_host [] ''t'' (Inr (PyNum (1 / 200))) (Inr (PyNum 72)) ''a.kra'',
            Event (mouse_move 100))] init_ext)
     = Inr (100, 1 / 200, Some (1 / 100))
   \<and> drag_new_scale (1 / 200) 150 0 = Inr (1 / 100)"
  by (simp add: machine_defs host_defs zoom_defs string_defs)





text \<open>
  Claim C8. In active mode, dragging or not, a key release that is not an auto-repeat is
  not consumed and leaves the extension idle: mode and drag off, no view held. From there
  the filter consumes no event of any list of events, and the state stays as it is.
\<close>

theorem C8_key_release_idles:
  assumes act: "zoom_mode_active s"
    and key: "etype ev = KeyRelease"
    and rep: "\<not> isAutoRepeat ev"
  shows "\<exists>s'. eventFilter h ev s = Inr (False, s') \<and>
     \<not> zoom_mode_active s' \<and> \<not> is_dragging s' \<and> active_view s' = None \<and>
     (\<forall>evs. filter_events evs s' = Inr (replicate (length evs) False, s'))"
proof -
  let ?s' = "s\<lparr> zoom_mode_active := False, is_dragging := False, active_view := None \<rparr>"
  have f: "eventFilter h ev s = Inr (False, ?s')"
    using act key rep by (simp add: eventFilter_def deactivate_zoom_mode_def bindR_def)
  have idle: "\<not> zoom_mode_active ?s'" by simp
  have "\<forall>evs. filter_events evs ?s' = Inr (replicate (length evs) False, ?s')"
    using filter_events_idle [OF idle] by blast
  with f show ?thesis by simp
qed

text \<open>C8 at a key release during a drag, followed by a move and a left press.\<close>

theorem C8_key_release_idles_witness:
  "zoom_mode_active (init_ext\<lparr> zoom_mode_active := True, is_dragging := True,
      active_view := Some 0 \<rparr>)
   \<and> etype key_release = KeyRelease \<and> \<not> isAutoRepeat key_release
   \<and> eventFilter no_host key_release
        (init_ext\<lparr> zoom_mode_active := True, is_dragging := True, active_view := Some 0 \<rparr>)
       = Inr (False, init_ext)
   \<and> filter_events
        [(simple_host [] ''t'' (Inr (PyNum 1)) (Inr (PyNum 72)) ''a.kra'', mouse_move 5),
         (simple_host [] ''t'' (Inr (PyNum 1)) (Inr (PyNum 72)) ''a.kra'', left_press 7)]
        init_ext = Inr ([False, False], init_ext)"
proof -
  let ?s = "init_ext\<lparr> zoom_mode_active := True, is_dragging := True, active_view := Some 0 \<rparr>"
  let ?h = "simple_host [] ''t'' (Inr (PyNum 1)) (Inr (PyNum 72)) ''a.kra''"
  have act: "zoom_mode_active ?s" by simp
  have key: "etype key_release = KeyRelease" by (simp add: key_release_def)
  have rep: "\<not> isAutoRepeat key_release" by (simp add: key_release_def)
  have f: "eventFilter no_host key_release ?s = Inr (False, init_ext)"
    by (simp add: eventFilter_def deactivate_zoom_mode_def bindR_def key_release_def
        init_ext_def)
  obtain s' where s': "eventFilter no_host key_release ?s = Inr (False, s')"
    and all: "\<forall>evs. filter_events evs s' = Inr (replicate (length evs) False, s')"
    using C8_key_release_idles [OF act key rep, of no_host] by blast
  from s' f have "s' = init_ext" by simp
  with all have "filter_events [(?h, mouse_move 5), (?h, left_press 7)] init_ext
      = Inr (replicate (length [(?h, mouse_move 5), (?h, left_press 7)]) False, init_ext)"
    by blast
  then show ?thesis using act key rep f by simp
qed

text \<open>
  Claim C9. In every state a run can reach, \<open>start_drag\<close> without an active document or
  without a position returns normally, begins no drag and leaves the extension idle; the
  other fields keep their values.
\<close>

theorem C9_start_drag_abort:
  assumes reach: "run tr init_ext = Inr s"
    and abort: "has_active_document h = Inr False \<or> pos = None"
  shows "\<exists>s'. start_drag h pos s = Inr s' \<and>
     \<not> zoom_mode_active s' \<and> \<not> is_dragging s' \<and> active_view s' = None \<and>
     s' = s\<lparr> zoom_mode_active := False, is_dragging := False, active_view := None \<rparr>"
proof -
  have inv: "mode_inv s" using run_inv [OF mode_inv_init, of tr] reach by auto
  have sd: "start_drag h pos s = deactivate_zoom_mode s" using abort by (rule start_drag_abort)
  show ?thesis
  proof (cases "zoom_mode_active s")
    case True
    then show ?thesis by (simp add: sd deactivate_zoom_mode_def)
  next
    case False
    with inv have "\<not> is_dragging s" "active_view s = None" by (auto simp: mode_inv_def)
    with False show ?thesis by (simp add: sd deactivate_zoom_mode_def)
  qed
qed

text \<open>C9 in active mode: once on a host without document, once without a position.\<close>

theorem C9_start_drag_abort_witness:
  "run [(simple_host [] ''t'' (Inr (PyNum 1)) (Inr (PyNum 72)) ''a.kra'', Activate)] init_ext
     = Inr (init_ext\<lparr> zoom_mode_active := True, filter_installed := True \<rparr>)
   \<and> has_active_document no_host = Inr False
   \<and> start_drag no_host (Some \<lparr> qx = 100, qy = 0 \<rparr>)
        (init_ext\<lparr> zoom_mode_active := True, filter_installed := True \<rparr>)
       = Inr (init_ext\<lparr> filter_installed := True \<rparr>)
   \<and> start_drag (simple_host [] ''t'' (Inr (PyNum 1)) (Inr (PyNum 72)) ''a.kra'') None
        (init_ext\<lparr> zoom_mode_active := True, filter_installed := True \<rparr>)
       = Inr (init_ext\<lparr> filter_installed := True \<rparr>)"
proof -
  let ?h = "simple_host [] ''t'' (Inr (PyNum 1)) (Inr (PyNum 72)) ''a.kra''"
  let ?s = "init_ext\<lparr> zoom_mode_active := True, filter_installed := True \<rparr>"
  have reach: "run [(?h, Activate)] init_ext = Inr ?s"
    by (simp add: machine_defs host_defs)
  have nodoc: "has_active_document no_host = Inr False" by (simp add: host_defs)
  have a1: "has_active_document no_host = Inr False \<or> Some \<lparr> qx = 100, qy = 0 \<rparr> = None"
    using nodoc by simp
  have a2: "has_active_document ?h = Inr False \<or> (None :: qpoint option) = None" by simp
  show ?thesis
    using C9_start_drag_abort [OF reach a1] C9_start_drag_abort [OF reach a2] reach nodoc
    by (simp add: init_ext_def)
qed

end
